theory Spec2Isabelle
  imports Complex_Main
begin

section \<open>Tables\<close>

text \<open>
  Both scripts work on pandas tables. A cell is a missing value (\<open>NaN\<close>, \<open>None\<close> and
  \<open>NaT\<close> alike), a 64-bit integer, a float, a text or a timestamp (nanoseconds since
  the epoch). A column of whole numbers without a missing value holds integers, every
  other column of numbers holds floats and missing values. The arithmetic of the
  integers wraps around as that of numpy does. The floats are real numbers: their
  rounding and the infinite floats are not part of the model. Nor are the bounds of
  the timestamps (the years 1677 and 2262), beyond which pandas raises. A table read
  by \<open>read_csv\<close> holds no timestamps; they come from \<open>pd.to_datetime\<close>.
  A row gives a cell for every column name; the cells of columns that the table does not
  list are never read.
\<close>

datatype error = KeyError string | ValueError string | TypeError string

datatype cell = NaN | I64 int | Num real | Str string | Time int

type_synonym row = "string \<Rightarrow> cell"

record dataframe =
  columns :: "string list"
  rows :: "row list"

definition in_int64 :: "int \<Rightarrow> bool" where
  "in_int64 i \<longleftrightarrow> - (2 ^ 63) \<le> i \<and> i < 2 ^ 63"

definition wrap64 :: "int \<Rightarrow> int" where
  "wrap64 i = (i + 2 ^ 63) mod 2 ^ 64 - 2 ^ 63"

definition row_of :: "(string \<times> cell) list \<Rightarrow> row" where
  "row_of kvs c = (case map_of kvs c of None \<Rightarrow> NaN | Some v \<Rightarrow> v)"

definition and_then :: "error + 'a \<Rightarrow> ('a \<Rightarrow> error + 'b) \<Rightarrow> error + 'b" where
  "and_then m f = (case m of Inl e \<Rightarrow> Inl e | Inr x \<Rightarrow> f x)"

text \<open>A column operation visits the rows in order and raises at the first cell it
  cannot handle.\<close>

fun mapM :: "('a \<Rightarrow> error + 'b) \<Rightarrow> 'a list \<Rightarrow> error + 'b list" where
  "mapM f [] = Inr []"
| "mapM f (x # xs) =
     (case f x of
        Inl e \<Rightarrow> Inl e
      | Inr y \<Rightarrow> (case mapM f xs of Inl e \<Rightarrow> Inl e | Inr ys \<Rightarrow> Inr (y # ys)))"

text \<open>\<open>df[c] = values\<close>: the column is overwritten, or appended when it is new.\<close>

definition setitem :: "string \<Rightarrow> cell list \<Rightarrow> dataframe \<Rightarrow> dataframe" where
  "setitem c vs df =
     \<lparr>columns = (if c \<in> set (columns df) then columns df else columns df @ [c]),
      rows = map (\<lambda>(r, v). r(c := v)) (zip (rows df) vs)\<rparr>"

text \<open>\<open>df[mask]\<close>: the rows whose mask entry is true.\<close>

definition select :: "bool list \<Rightarrow> dataframe \<Rightarrow> dataframe" where
  "select keep df = df\<lparr>rows := map fst (filter snd (zip (rows df) keep))\<rparr>"

section \<open>automate: the operations of the cleaner (\<open>preprocess_data\<close>, lines 20 to 40)\<close>

text \<open>
  Line 20, \<open>pd.to_datetime(df['InvoiceDate'], errors='coerce')\<close>. The parser of pandas
  is a parameter: \<open>parse c\<close> is the timestamp it reads from the cell \<open>c\<close>, \<open>None\<close>
  where it gives \<open>NaT\<close>.
\<close>

definition to_datetime :: "(cell \<Rightarrow> int option) \<Rightarrow> cell \<Rightarrow> cell" where
  "to_datetime parse c = (case parse c of None \<Rightarrow> NaN | Some t \<Rightarrow> Time t)"

definition parse_invoice_date :: "(cell \<Rightarrow> int option) \<Rightarrow> dataframe \<Rightarrow> error + dataframe" where
  "parse_invoice_date parse df =
     (if ''InvoiceDate'' \<in> set (columns df)
      then Inr (setitem ''InvoiceDate''
                  (map (\<lambda>r. to_datetime parse (r ''InvoiceDate'')) (rows df)) df)
      else Inl (KeyError ''InvoiceDate''))"

text \<open>Line 24, \<open>df.dropna(subset=["CustomerID"])\<close>.\<close>

definition dropna :: "string \<Rightarrow> dataframe \<Rightarrow> error + dataframe" where
  "dropna c df =
     (if c \<in> set (columns df)
      then Inr (select (map (\<lambda>r. r c \<noteq> NaN) (rows df)) df)
      else Inl (KeyError c))"

text \<open>
  Line 27, \<open>astype(int)\<close>, a cast to \<open>int64\<close>: an integer stays, a float is truncated
  towards zero and, outside the range of \<open>int64\<close>, becomes the least 64-bit integer
  (what the cast of the processor gives); a text cell (the column of a CSV file holds
  texts only when one of them is not a number) and a missing value raise
  \<open>ValueError\<close>.
\<close>

definition trunc :: "real \<Rightarrow> int" where
  "trunc x = (if 0 \<le> x then \<lfloor>x\<rfloor> else \<lceil>x\<rceil>)"

fun to_int :: "cell \<Rightarrow> error + cell" where
  "to_int (I64 i) = Inr (I64 i)"
| "to_int (Num x) = Inr (I64 (if in_int64 (trunc x) then trunc x else - (2 ^ 63)))"
| "to_int NaN = Inl (ValueError ''Cannot convert non-finite values (NA or inf) to integer'')"
| "to_int (Str s) = Inl (ValueError ''invalid literal for int()'')"
| "to_int (Time t) = Inl (TypeError ''cannot convert datetimelike to int'')"

definition astype_int :: "string \<Rightarrow> dataframe \<Rightarrow> error + dataframe" where
  "astype_int c df =
     (if c \<in> set (columns df)
      then and_then (mapM (\<lambda>r. to_int (r c)) (rows df)) (\<lambda>vs. Inr (setitem c vs df))
      else Inl (KeyError c))"

text \<open>Line 31, \<open>df_clean[df_clean['ReturnStatus'] == 'Not Returned']\<close>; line 30 runs it
  only where the column exists.\<close>

definition not_returned :: "dataframe \<Rightarrow> dataframe" where
  "not_returned df =
     (if ''ReturnStatus'' \<in> set (columns df)
      then select (map (\<lambda>r. r ''ReturnStatus'' = Str ''Not Returned'') (rows df)) df
      else df)"

text \<open>Lines 34 and 35, \<open>df_clean[df_clean[c] > 0]\<close>: a missing value compares false, a
  text or a timestamp cannot be compared with a number.\<close>

fun gt_zero :: "cell \<Rightarrow> error + bool" where
  "gt_zero (I64 i) = Inr (0 < i)"
| "gt_zero (Num x) = Inr (0 < x)"
| "gt_zero NaN = Inr False"
| "gt_zero (Str s) = Inl (TypeError ''> not supported between str and int'')"
| "gt_zero (Time t) = Inl (TypeError ''Invalid comparison between datetime64 and int'')"

definition where_positive :: "string \<Rightarrow> dataframe \<Rightarrow> error + dataframe" where
  "where_positive c df =
     (if c \<in> set (columns df)
      then and_then (mapM (\<lambda>r. gt_zero (r c)) (rows df)) (\<lambda>keep. Inr (select keep df))
      else Inl (KeyError c))"

text \<open>Line 39, \<open>df_clean['Discount'].clip(lower=0, upper=1)\<close>: numbers are clipped,
  missing values stay missing.\<close>

fun clip :: "cell \<Rightarrow> error + cell" where
  "clip (I64 i) = Inr (I64 (min (max i 0) 1))"
| "clip (Num x) = Inr (Num (min (max x 0) 1))"
| "clip NaN = Inr NaN"
| "clip (Str s) = Inl (TypeError ''>= not supported between str and int'')"
| "clip (Time t) = Inl (TypeError ''Invalid comparison between datetime64 and int'')"

definition clip_discount :: "dataframe \<Rightarrow> error + dataframe" where
  "clip_discount df =
     (if ''Discount'' \<in> set (columns df)
      then and_then (mapM (\<lambda>r. clip (r ''Discount'')) (rows df))
             (\<lambda>vs. Inr (setitem ''DiscountClipped'' vs df))
      else Inl (KeyError ''Discount''))"

text \<open>
  Line 40, \<open>Quantity * UnitPrice * (1 - DiscountClipped)\<close>, cell by cell: two integers
  give the product in 64 bits, an integer and a float give a float, a missing operand
  gives a missing result.
\<close>

fun cell_mul :: "cell \<Rightarrow> cell \<Rightarrow> error + cell" where
  "cell_mul (I64 a) (I64 b) = Inr (I64 (wrap64 (a * b)))"
| "cell_mul (I64 a) (Num b) = Inr (Num (of_int a * b))"
| "cell_mul (Num a) (I64 b) = Inr (Num (a * of_int b))"
| "cell_mul (Num a) (Num b) = Inr (Num (a * b))"
| "cell_mul NaN (I64 b) = Inr NaN"
| "cell_mul NaN (Num b) = Inr NaN"
| "cell_mul (I64 a) NaN = Inr NaN"
| "cell_mul (Num a) NaN = Inr NaN"
| "cell_mul NaN NaN = Inr NaN"
| "cell_mul a b = Inl (TypeError ''unsupported operand type(s) for *'')"

fun one_minus :: "cell \<Rightarrow> error + cell" where
  "one_minus (I64 d) = Inr (I64 (wrap64 (1 - d)))"
| "one_minus (Num d) = Inr (Num (1 - d))"
| "one_minus NaN = Inr NaN"
| "one_minus c = Inl (TypeError ''unsupported operand type(s) for -'')"

definition total_price_of :: "row \<Rightarrow> error + cell" where
  "total_price_of r =
     and_then (cell_mul (r ''Quantity'') (r ''UnitPrice''))
       (\<lambda>qp. and_then (one_minus (r ''DiscountClipped'')) (\<lambda>d. cell_mul qp d))"

definition total_price :: "dataframe \<Rightarrow> error + dataframe" where
  "total_price df =
     (if ''Quantity'' \<notin> set (columns df) then Inl (KeyError ''Quantity'')
      else if ''UnitPrice'' \<notin> set (columns df) then Inl (KeyError ''UnitPrice'')
      else if ''DiscountClipped'' \<notin> set (columns df) then Inl (KeyError ''DiscountClipped'')
      else and_then (mapM total_price_of (rows df)) (\<lambda>vs. Inr (setitem ''TotalPrice'' vs df)))"

section \<open>automate: the cleaner on the tables as objects\<close>

text \<open>
  The variables of Python hold references. The store gives the table of every object;
  \<open>next_free\<close> is the first address not in use. An assignment to a column writes into
  the object the variable refers to; \<open>dropna\<close>, \<open>copy\<close> and the selection by a mask
  make a new object. A run returns the store it leaves behind, also when it raises.
\<close>

record store =
  objects :: "nat \<Rightarrow> dataframe"
  next_free :: nat

type_synonym 'a run = "store \<Rightarrow> store \<times> (error + 'a)"

definition then_run :: "'a run \<Rightarrow> ('a \<Rightarrow> 'b run) \<Rightarrow> 'b run" where
  "then_run m f s = (case m s of (s', Inl e) \<Rightarrow> (s', Inl e) | (s', Inr x) \<Rightarrow> f x s')"

definition done_with :: "'a \<Rightarrow> 'a run" where
  "done_with x s = (s, Inr x)"

text \<open>\<open>v[c] = op(v)\<close>: the object of \<open>v\<close> is overwritten.\<close>

definition in_place :: "(dataframe \<Rightarrow> error + dataframe) \<Rightarrow> nat \<Rightarrow> unit run" where
  "in_place op v s =
     (case op (objects s v) of
        Inl e \<Rightarrow> (s, Inl e)
      | Inr d \<Rightarrow> (s\<lparr>objects := (objects s)(v := d)\<rparr>, Inr ()))"

text \<open>\<open>w = op(v)\<close>: the result is a new object, whose address is returned.\<close>

definition new_object :: "(dataframe \<Rightarrow> error + dataframe) \<Rightarrow> nat \<Rightarrow> nat run" where
  "new_object op v s =
     (case op (objects s v) of
        Inl e \<Rightarrow> (s, Inl e)
      | Inr d \<Rightarrow> (\<lparr>objects = (objects s)(next_free s := d), next_free = Suc (next_free s)\<rparr>,
                  Inr (next_free s)))"

text \<open>
  Lines 20 to 40. \<open>df\<close> is the address of the table passed by the caller; the result
  is the address of \<open>df_clean\<close> after line 40. Line 20 assigns to a column of \<open>df\<close>;
  line 24 makes \<open>df_clean\<close> a copy of what \<open>dropna\<close> returns; lines 27, 39 and 40 assign
  to columns of \<open>df_clean\<close>; lines 31, 34 and 35 bind \<open>df_clean\<close> to the selected rows.
\<close>

definition clean_in_store :: "(cell \<Rightarrow> int option) \<Rightarrow> nat \<Rightarrow> nat run" where
  "clean_in_store parse df =
     then_run (in_place (parse_invoice_date parse) df) (\<lambda>_.
     then_run (new_object (dropna ''CustomerID'') df) (\<lambda>dropped.
     then_run (new_object Inr dropped) (\<lambda>df_clean.
     then_run (in_place (astype_int ''CustomerID'') df_clean) (\<lambda>_.
     then_run (\<lambda>s. if ''ReturnStatus'' \<in> set (columns (objects s df_clean))
                    then new_object (\<lambda>d. Inr (not_returned d)) df_clean s
                    else done_with df_clean s) (\<lambda>df_clean.
     then_run (new_object (where_positive ''Quantity'') df_clean) (\<lambda>df_clean.
     then_run (new_object (where_positive ''UnitPrice'') df_clean) (\<lambda>df_clean.
     then_run (in_place clip_discount df_clean) (\<lambda>_.
     then_run (in_place total_price df_clean) (\<lambda>_.
     done_with df_clean)))))))))"

text \<open>
  The cleaner on a table by itself: the table is the only object of the store. The
  first component is the table of the caller after the call, the second the cleaned
  table or the exception raised.
\<close>

definition clean :: "(cell \<Rightarrow> int option) \<Rightarrow> dataframe \<Rightarrow> dataframe \<times> (error + dataframe)" where
  "clean parse df =
     (case clean_in_store parse 0 \<lparr>objects = (\<lambda>_. df), next_free = 1\<rparr> of
        (s, Inl e) \<Rightarrow> (objects s 0, Inl e)
      | (s, Inr a) \<Rightarrow> (objects s 0, Inr (objects s a)))"

text \<open>What lines 24 to 40 compute from the table that line 20 leaves.\<close>

definition clean_copy :: "dataframe \<Rightarrow> error + dataframe" where
  "clean_copy df =
     and_then (dropna ''CustomerID'' df) (\<lambda>d1.
     and_then (astype_int ''CustomerID'' d1) (\<lambda>d2.
     and_then (where_positive ''Quantity'' (not_returned d2)) (\<lambda>d3.
     and_then (where_positive ''UnitPrice'' d3) (\<lambda>d4.
     and_then (clip_discount d4) total_price))))"

section \<open>automate: the feature builder (\<open>preprocess_data\<close>, lines 46 to 72)\<close>

definition day :: int where
  "day = 86400 * 10 ^ 9"

fun time_of :: "cell \<Rightarrow> int option" where
  "time_of (Time t) = Some t"
| "time_of c = None"

text \<open>\<open>Series.max()\<close> of a column of timestamps skips the missing ones and is \<open>NaT\<close>
  when nothing is left.\<close>

definition series_max :: "cell list \<Rightarrow> int option" where
  "series_max cs =
     (case List.map_filter time_of cs of [] \<Rightarrow> None | t # ts \<Rightarrow> Some (fold max ts t))"

text \<open>Line 46: the latest invoice date plus one day; \<open>NaT\<close> when no row has a date.\<close>

definition snapshot_date :: "dataframe \<Rightarrow> int option" where
  "snapshot_date df =
     map_option (\<lambda>m. m + day) (series_max (map (\<lambda>r. r ''InvoiceDate'') (rows df)))"

text \<open>
  Lines 48 to 58. \<open>groupby('CustomerID')\<close> makes one group per customer number, in
  ascending order (the column holds integers after line 27). For each group:
  \<open>(snapshot_date - x.max()).days\<close>, which is missing when the group has no date; the
  \<open>count\<close> of the invoice numbers that are present; and the \<open>sum\<close> of the total
  prices that are present, in 64 bits when the column holds integers. The renamed
  columns are the fields of the record.
\<close>

record customer_rfm =
  CustomerID :: int
  Recency :: "real option"
  Frequency :: real
  Monetary :: real

fun int_of :: "cell \<Rightarrow> int option" where
  "int_of (I64 i) = Some i"
| "int_of c = None"

fun num_of :: "cell \<Rightarrow> real option" where
  "num_of (I64 i) = Some (of_int i)"
| "num_of (Num x) = Some x"
| "num_of c = None"

definition group_keys :: "dataframe \<Rightarrow> int list" where
  "group_keys df = sort (remdups (List.map_filter (\<lambda>r. int_of (r ''CustomerID'')) (rows df)))"

definition recency_days :: "int option \<Rightarrow> row list \<Rightarrow> real option" where
  "recency_days snapshot g =
     (case snapshot of
        None \<Rightarrow> None
      | Some s \<Rightarrow>
          (case series_max (map (\<lambda>r. r ''InvoiceDate'') g) of
             None \<Rightarrow> None
           | Some m \<Rightarrow> Some (of_int ((s - m) div day))))"

definition series_sum :: "cell list \<Rightarrow> real" where
  "series_sum cs =
     (if list_all (\<lambda>c. int_of c \<noteq> None) cs
      then of_int (wrap64 (sum_list (List.map_filter int_of cs)))
      else sum_list (List.map_filter num_of cs))"

definition rfm_of :: "int option \<Rightarrow> int \<Rightarrow> row list \<Rightarrow> customer_rfm" where
  "rfm_of snapshot k g =
     \<lparr>CustomerID = k,
      Recency = recency_days snapshot g,
      Frequency = of_nat (length (filter (\<lambda>r. r ''InvoiceNo'' \<noteq> NaN) g)),
      Monetary = series_sum (map (\<lambda>r. r ''TotalPrice'') g)\<rparr>"

definition aggregate :: "dataframe \<Rightarrow> error + customer_rfm list" where
  "aggregate df =
     (if ''InvoiceDate'' \<notin> set (columns df) then Inl (KeyError ''InvoiceDate'')
      else if ''CustomerID'' \<notin> set (columns df) then Inl (KeyError ''CustomerID'')
      else if ''InvoiceNo'' \<notin> set (columns df) then Inl (KeyError ''InvoiceNo'')
      else if ''TotalPrice'' \<notin> set (columns df) then Inl (KeyError ''TotalPrice'')
      else Inr (map (\<lambda>k. rfm_of (snapshot_date df) k
                            (filter (\<lambda>r. r ''CustomerID'' = I64 k) (rows df)))
                  (group_keys df)))"

text \<open>
  Line 64, \<open>rfm[['Recency', 'Frequency', 'Monetary']].apply(np.log1p)\<close>. Without a
  group the function of line 49 was never called and \<open>Recency\<close> still holds
  timestamps, which \<open>np.log1p\<close> refuses with a \<open>TypeError\<close>. Otherwise the columns
  hold numbers; below \<open>-1\<close> numpy gives \<open>nan\<close> and at \<open>-1\<close> it gives \<open>-inf\<close>, both
  with a warning only.
\<close>

datatype logged = Finite real | Missing | Minus_infinity

definition log1p :: "real \<Rightarrow> logged" where
  "log1p x = (if - 1 < x then Finite (ln (1 + x)) else if x = - 1 then Minus_infinity else Missing)"

definition log_transform :: "customer_rfm list \<Rightarrow> error + (logged \<times> logged \<times> logged) list" where
  "log_transform rfm =
     (if rfm = [] then Inl (TypeError ''ufunc log1p not supported for the input types'')
      else Inr (map (\<lambda>c. (case Recency c of None \<Rightarrow> Missing | Some d \<Rightarrow> log1p d,
                           log1p (Frequency c), log1p (Monetary c))) rfm))"

text \<open>
  Lines 67 and 68, \<open>StandardScaler().fit_transform\<close>. The scaler refuses an infinite
  value and an array without rows. One column: mean and population variance of the
  values that are present, a zero variance scaled by one.
\<close>

fun finite_of :: "logged \<Rightarrow> real option" where
  "finite_of (Finite x) = Some x"
| "finite_of l = None"

definition standardize :: "real option list \<Rightarrow> real option list" where
  "standardize xs =
     (let vs = List.map_filter id xs;
          n = real (length vs);
          mean = sum_list vs / n;
          var = sum_list (map (\<lambda>v. (v - mean)\<^sup>2) vs) / n;
          scale = (if var = 0 then 1 else sqrt var)
      in map (map_option (\<lambda>x. (x - mean) / scale)) xs)"

definition fit_transform ::
  "(logged \<times> logged \<times> logged) list \<Rightarrow> error + (real option \<times> real option \<times> real option) list" where
  "fit_transform A =
     (if list_ex (\<lambda>(r, f, m). r = Minus_infinity \<or> f = Minus_infinity \<or> m = Minus_infinity) A
      then Inl (ValueError ''Input contains infinity'')
      else if A = [] then Inl (ValueError ''Found array with 0 sample(s)'')
      else Inr (zip (standardize (map (\<lambda>(r, f, m). finite_of r) A))
                 (zip (standardize (map (\<lambda>(r, f, m). finite_of f) A))
                      (standardize (map (\<lambda>(r, f, m). finite_of m) A)))))"

fun cell_of :: "real option \<Rightarrow> cell" where
  "cell_of None = NaN"
| "cell_of (Some x) = Num x"

text \<open>Lines 64 to 72: the scaled columns and the customer numbers of \<open>rfm\<close>.\<close>

definition scale_features :: "customer_rfm list \<Rightarrow> error + dataframe" where
  "scale_features rfm =
     and_then (log_transform rfm) (\<lambda>A.
     and_then (fit_transform A) (\<lambda>Z.
       Inr \<lparr>columns = [''Recency'', ''Frequency'', ''Monetary'', ''CustomerID''],
            rows = map (\<lambda>(c, r, f, m).
                          row_of [(''Recency'', cell_of r), (''Frequency'', cell_of f),
                                  (''Monetary'', cell_of m), (''CustomerID'', I64 (CustomerID c))])
                     (zip rfm Z)\<rparr>))"

definition build_features :: "dataframe \<Rightarrow> error + dataframe" where
  "build_features cleaned = and_then (aggregate cleaned) scale_features"

text \<open>\<open>preprocess_data\<close>: the table of the caller after the call, and the scaled table
  or the exception.\<close>

definition preprocess_data :: "(cell \<Rightarrow> int option) \<Rightarrow> dataframe \<Rightarrow> dataframe \<times> (error + dataframe)" where
  "preprocess_data parse df =
     (case clean parse df of (df', cleaned) \<Rightarrow> (df', and_then cleaned build_features))"

text \<open>
  \<open>main\<close> of the first script. The files are a map from paths to the tables they hold
  (what \<open>to_csv\<close> writes, \<open>read_csv\<close> reads back). A missing input file is reported
  and \<open>main\<close> returns; an exception of \<open>preprocess_data\<close> ends the run before anything
  is written.
\<close>

type_synonym files = "string \<Rightarrow> dataframe option"

definition automate_main :: "(cell \<Rightarrow> int option) \<Rightarrow> files \<Rightarrow> error + files" where
  "automate_main parse fs =
     (case fs ''online-sales-dataset_raw.csv'' of
        None \<Rightarrow> Inr fs
      | Some df \<Rightarrow>
          (case snd (preprocess_data parse df) of
             Inl e \<Rightarrow> Inl e
           | Inr out \<Rightarrow> Inr (fs(''online-sales-dataset_preprocessing.csv'' \<mapsto> out))))"

section \<open>modelling_tuning: the sweep\<close>

text \<open>
  scikit-learn and the tracking service are outside the repository. They are
  parameters: the generator made from a seed, k-means++ with Lloyd's iterations on a
  checked array, the mean silhouette, and for every call to the tracking service the
  exception it raises, if any. What the model spells out is the checks around the
  numerical cores, which raise.
\<close>

text \<open>The fitted estimator: its attributes \<open>labels_\<close>, \<open>inertia_\<close> and
  \<open>cluster_centers_\<close>.\<close>

record fitted =
  km_labels :: "nat list"
  km_inertia :: real
  km_centers :: "real list list"

datatype call =
  Set_experiment | Start_run | Start_nested_run nat | Log_params nat | Log_metrics nat
  | Log_model nat | Log_plot nat | Log_table nat

record 'g libraries =
  RandomState :: "nat \<Rightarrow> 'g"
  lloyd :: "nat \<Rightarrow> 'g \<Rightarrow> real list list \<Rightarrow> fitted"
  mean_silhouette :: "real list list \<Rightarrow> nat list \<Rightarrow> real"
  mlflow :: "call \<Rightarrow> error option"

definition tracked :: "'g libraries \<Rightarrow> call \<Rightarrow> error + unit" where
  "tracked lib c = (case mlflow lib c of None \<Rightarrow> Inr () | Some e \<Rightarrow> Inl e)"

text \<open>\<open>random_state\<close>: an integer seeds a generator of its own, \<open>None\<close> takes the
  generator of the process.\<close>

datatype random_state = Seed nat | Unseeded

fun check_random_state :: "'g libraries \<Rightarrow> 'g \<Rightarrow> random_state \<Rightarrow> 'g" where
  "check_random_state lib ambient (Seed n) = RandomState lib n"
| "check_random_state lib ambient Unseeded = ambient"

text \<open>\<open>check_array\<close>: the cells of the listed columns become floats, then a missing
  value and an empty array are refused.\<close>

fun float_of :: "cell \<Rightarrow> error + real option" where
  "float_of (I64 i) = Inr (Some (of_int i))"
| "float_of (Num x) = Inr (Some x)"
| "float_of NaN = Inr None"
| "float_of (Str s) = Inl (ValueError ''could not convert string to float'')"
| "float_of (Time t) = Inl (TypeError ''float() argument must be a string or a real number'')"

fun present :: "real option \<Rightarrow> error + real" where
  "present (Some x) = Inr x"
| "present None = Inl (ValueError ''Input contains NaN'')"

definition check_array :: "dataframe \<Rightarrow> error + real list list" where
  "check_array X =
     and_then (mapM (\<lambda>r. mapM (\<lambda>c. float_of (r c)) (columns X)) (rows X)) (\<lambda>A.
     and_then (mapM (mapM present) A) (\<lambda>B.
       if B = [] then Inl (ValueError ''Found array with 0 sample(s)'')
       else if columns X = [] then Inl (ValueError ''Found array with 0 feature(s)'')
       else Inr B))"

definition KMeans_fit :: "'g libraries \<Rightarrow> 'g \<Rightarrow> nat \<Rightarrow> random_state \<Rightarrow> dataframe \<Rightarrow> error + fitted" where
  "KMeans_fit lib ambient k rs X =
     and_then (check_array X) (\<lambda>A.
       if length A < k then Inl (ValueError ''n_samples should be >= n_clusters'')
       else Inr (lloyd lib k (check_random_state lib ambient rs) A))"

definition silhouette_score :: "'g libraries \<Rightarrow> dataframe \<Rightarrow> nat list \<Rightarrow> error + real" where
  "silhouette_score lib X labels =
     and_then (check_array X) (\<lambda>A.
       if length labels \<noteq> length A
       then Inl (ValueError ''Found input variables with inconsistent numbers of samples'')
       else if 1 < length (remdups labels) \<and> length (remdups labels) < length A
       then Inr (mean_silhouette lib A labels)
       else Inl (ValueError ''Number of labels is invalid. Valid values are 2 to n_samples - 1''))"

text \<open>\<open>data.drop(columns=['CustomerID'], errors='ignore')\<close>: the column is no longer
  listed.\<close>

definition drop_column :: "string \<Rightarrow> dataframe \<Rightarrow> dataframe" where
  "drop_column c df = df\<lparr>columns := filter (\<lambda>n. n \<noteq> c) (columns df)\<rparr>"

text \<open>The plot of lines 72 to 77 needs the columns \<open>Recency\<close> and \<open>Frequency\<close>.\<close>

definition scatterplot :: "dataframe \<Rightarrow> error + (cell \<times> cell \<times> cell) list" where
  "scatterplot df =
     (if ''Recency'' \<notin> set (columns df) then Inl (ValueError ''Could not interpret value Recency for x'')
      else if ''Frequency'' \<notin> set (columns df) then Inl (ValueError ''Could not interpret value Frequency for y'')
      else Inr (map (\<lambda>r. (r ''Recency'', r ''Frequency'', r ''Cluster'')) (rows df)))"

text \<open>
  One pass of the loop body (lines 43 to 86), in the order of the source: the nested
  run is opened, the model fitted and scored, parameters, metrics and model logged, the
  plot drawn and logged, the table with the clusters logged. The result is what
  reached the tracking service when no step raised.
\<close>

record trial =
  n_clusters :: nat
  algorithm :: string
  silhouette :: real
  inertia :: real
  model :: fitted
  cluster_plot :: "(cell \<times> cell \<times> cell) list"
  result_csv :: dataframe

definition run_trial :: "'g libraries \<Rightarrow> 'g \<Rightarrow> dataframe \<Rightarrow> dataframe \<Rightarrow> nat \<Rightarrow> error + trial" where
  "run_trial lib ambient data X k =
     and_then (tracked lib (Start_nested_run k)) (\<lambda>_.
     and_then (KMeans_fit lib ambient k (Seed 42) X) (\<lambda>m.
     and_then (silhouette_score lib X (km_labels m)) (\<lambda>s.
     and_then (tracked lib (Log_params k)) (\<lambda>_.
     and_then (tracked lib (Log_metrics k)) (\<lambda>_.
     and_then (tracked lib (Log_model k)) (\<lambda>_.
     and_then (scatterplot (setitem ''Cluster'' (map (\<lambda>l. I64 (int l)) (km_labels m)) data)) (\<lambda>plot.
     and_then (tracked lib (Log_plot k)) (\<lambda>_.
     and_then (tracked lib (Log_table k)) (\<lambda>_.
       Inr \<lparr>n_clusters = k, algorithm = ''K-Means'', silhouette = s, inertia = km_inertia m,
            model = m, cluster_plot = plot,
            result_csv = setitem ''Cluster'' (map (\<lambda>l. I64 (int l)) (km_labels m)) data\<rparr>)))))))))"

text \<open>
  The loop over \<open>range(2, 7)\<close>: nothing catches an exception of the body, so the first
  one ends the loop and the run. The result is the trials completed so far and the
  exception, if any.
\<close>

fun sweep :: "'g libraries \<Rightarrow> 'g \<Rightarrow> dataframe \<Rightarrow> dataframe \<Rightarrow> nat list \<Rightarrow> trial list \<Rightarrow> trial list \<times> error option" where
  "sweep lib ambient data X [] acc = (acc, None)"
| "sweep lib ambient data X (k # ks) acc =
     (case run_trial lib ambient data X k of
        Inl e \<Rightarrow> (acc, Some e)
      | Inr t \<Rightarrow> sweep lib ambient data X ks (acc @ [t]))"

definition k_range :: "nat list" where
  "k_range = [2..<7]"

text \<open>Lines 23 and 37 to 86 of \<open>main\<close>: the features without the customer numbers, and
  the loop.\<close>

definition runSweep :: "'g libraries \<Rightarrow> 'g \<Rightarrow> dataframe \<Rightarrow> trial list \<times> error option" where
  "runSweep lib ambient data = sweep lib ambient data (drop_column ''CustomerID'' data) k_range []"

text \<open>\<open>main\<close> of the second script: without the file of the first script it reports and
  returns; otherwise it names the experiment, opens the parent run and sweeps.\<close>

definition tuning_main :: "'g libraries \<Rightarrow> 'g \<Rightarrow> files \<Rightarrow> trial list \<times> error option" where
  "tuning_main lib ambient fs =
     (case fs ''online-sales-dataset_preprocessing.csv'' of
        None \<Rightarrow> ([], None)
      | Some data \<Rightarrow>
          (case mlflow lib Set_experiment of
             Some e \<Rightarrow> ([], Some e)
           | None \<Rightarrow>
               (case mlflow lib Start_run of
                  Some e \<Rightarrow> ([], Some e)
                | None \<Rightarrow> runSweep lib ambient data)))"

text \<open>The two scripts one after the other, as the workflow runs them: the scaled table
  written by the first, and the outcome of the sweep.\<close>

definition pipeline ::
  "(cell \<Rightarrow> int option) \<Rightarrow> 'g libraries \<Rightarrow> 'g \<Rightarrow> files \<Rightarrow> error + (dataframe option \<times> trial list \<times> error option)" where
  "pipeline parse lib ambient fs =
     and_then (automate_main parse fs) (\<lambda>fs'.
       Inr (fs' ''online-sales-dataset_preprocessing.csv'', tuning_main lib ambient fs'))"

section \<open>Reading the results\<close>

text \<open>\<open>df[c]\<close>, the cells of one column from the first row to the last.\<close>

definition column :: "string \<Rightarrow> dataframe \<Rightarrow> cell list" where
  "column c df = map (\<lambda>r. r c) (rows df)"

text \<open>A cell that is a number or missing, as the columns read from a CSV file of
  numbers are.\<close>

definition numeric :: "cell \<Rightarrow> bool" where
  "numeric c = (case c of NaN \<Rightarrow> True | I64 i \<Rightarrow> True | Num x \<Rightarrow> True | _ \<Rightarrow> False)"

text \<open>What the sweep reports of a trial: the number of clusters, the labels, the
  inertia and the silhouette.\<close>

definition metrics :: "trial \<Rightarrow> nat \<times> nat list \<times> real \<times> real" where
  "metrics t = (n_clusters t, km_labels (model t), inertia t, silhouette t)"

section \<open>Concrete tables and library instances\<close>

text \<open>
  The theorems below hold for every date parser, every numerical core and every
  behaviour of the tracking service. To run the model on a concrete table it needs one
  of each: a parser that knows two dates (as nanoseconds since the epoch) and reads
  nothing else, a core that puts equal points into one cluster and deals the labels
  out to the others in turn, starting from the state of its generator, and a
  tracking service that accepts every call.
\<close>

definition example_parse :: "cell \<Rightarrow> int option" where
  "example_parse c =
     (if c = Str ''1970-01-01'' then Some 0
      else if c = Str ''1970-01-03'' then Some 172800000000000
      else None)"

definition toy_libraries :: "nat libraries" where
  "toy_libraries =
     \<lparr>RandomState = (\<lambda>seed. seed),
      lloyd = (\<lambda>k g A. \<lparr>km_labels = map (\<lambda>x. (length (takeWhile (\<lambda>y. y \<noteq> x) A) + g) mod k) A,
                          km_inertia = 0, km_centers = []\<rparr>),
      mean_silhouette = (\<lambda>A labels. 0),
      mlflow = (\<lambda>c. None)\<rparr>"

definition required_columns :: "string list" where
  "required_columns =
     [''CustomerID'', ''InvoiceNo'', ''InvoiceDate'', ''Quantity'', ''UnitPrice'', ''Discount'']"

text \<open>The two sales of one customer in the example of the specification, with their
  invoice numbers and dates left open.\<close>

definition two_purchases :: "cell \<Rightarrow> cell \<Rightarrow> cell \<Rightarrow> cell \<Rightarrow> dataframe" where
  "two_purchases i1 d1 i2 d2 =
     \<lparr>columns = required_columns,
      rows = [row_of [(''CustomerID'', I64 1), (''InvoiceNo'', i1), (''InvoiceDate'', d1),
                      (''Quantity'', I64 2), (''UnitPrice'', I64 10), (''Discount'', I64 0)],
              row_of [(''CustomerID'', I64 1), (''InvoiceNo'', i2), (''InvoiceDate'', d2),
                      (''Quantity'', I64 1), (''UnitPrice'', I64 5), (''Discount'', I64 0)]]\<rparr>"

text \<open>Two sales of one customer; the discount of the first is missing, so that the
  column holds floats.\<close>

definition missing_discount_table :: dataframe where
  "missing_discount_table =
     \<lparr>columns = required_columns,
      rows = [row_of [(''CustomerID'', I64 1), (''InvoiceNo'', Str ''A1''),
                      (''InvoiceDate'', Str ''1970-01-01''), (''Quantity'', I64 2),
                      (''UnitPrice'', I64 10), (''Discount'', NaN)],
              row_of [(''CustomerID'', I64 1), (''InvoiceNo'', Str ''A2''),
                      (''InvoiceDate'', Str ''1970-01-03''), (''Quantity'', I64 1),
                      (''UnitPrice'', I64 5), (''Discount'', Num 0)]]\<rparr>"

text \<open>A table without the column \<open>InvoiceNo\<close>.\<close>

definition no_invoice_no_table :: dataframe where
  "no_invoice_no_table =
     \<lparr>columns = [''CustomerID'', ''InvoiceDate'', ''Quantity'', ''UnitPrice'', ''Discount''],
      rows = [row_of [(''CustomerID'', Num 1), (''InvoiceDate'', Str ''1970-01-01''),
                      (''Quantity'', Num 2), (''UnitPrice'', Num 10), (''Discount'', Num 0)]]\<rparr>"

text \<open>A table without the column \<open>Discount\<close>.\<close>

definition no_discount_table :: dataframe where
  "no_discount_table =
     \<lparr>columns = [''CustomerID'', ''InvoiceNo'', ''InvoiceDate'', ''Quantity'', ''UnitPrice''],
      rows = [row_of [(''CustomerID'', Num 1), (''InvoiceNo'', Str ''A1''),
                      (''InvoiceDate'', Str ''1970-01-01''), (''Quantity'', Num 2),
                      (''UnitPrice'', Num 10)]]\<rparr>"


text \<open>One sale whose date cannot be read, and a second table as a bystander.\<close>

definition bad_date_table :: dataframe where
  "bad_date_table =
     \<lparr>columns = required_columns,
      rows = [row_of [(''CustomerID'', Num 1), (''InvoiceNo'', Str ''A1''),
                      (''InvoiceDate'', Str ''soon''), (''Quantity'', Num 2),
                      (''UnitPrice'', Num 10), (''Discount'', Num 0)]]\<rparr>"

definition two_tables :: store where
  "two_tables =
     \<lparr>objects = (\<lambda>a. if a = 0 then bad_date_table else no_discount_table), next_free = 2\<rparr>"

text \<open>Scaled tables of seven customers, as the second script reads them: the numbers
  of both are the same, the customer numbers differ.\<close>

definition scaled_row :: "real \<Rightarrow> real \<Rightarrow> real \<Rightarrow> int \<Rightarrow> row" where
  "scaled_row r f m c =
     row_of [(''Recency'', Num r), (''Frequency'', Num f), (''Monetary'', Num m),
             (''CustomerID'', I64 c)]"

definition seven_customers :: "int \<Rightarrow> dataframe" where
  "seven_customers first =
     \<lparr>columns = [''Recency'', ''Frequency'', ''Monetary'', ''CustomerID''],
      rows = [scaled_row (- 1) 0 1 first, scaled_row 0 1 (- 1) (first + 1),
              scaled_row 1 (- 1) 0 (first + 2), scaled_row 0 0 0 (first + 3),
              scaled_row 1 1 1 (first + 4), scaled_row (- 1) (- 1) (- 1) (first + 5),
              scaled_row 0 2 0 (first + 6)]\<rparr>"

text \<open>Seven customers who bought alike: the first script scales a column of equal
  values to zeros.\<close>

definition seven_alike :: dataframe where
  "seven_alike =
     \<lparr>columns = [''Recency'', ''Frequency'', ''Monetary'', ''CustomerID''],
      rows = map (scaled_row 0 0 0) [1, 2, 3, 4, 5, 6, 7]\<rparr>"

section \<open>Lemmas on the table operations\<close>

lemma and_then_Inr: "and_then m f = Inr y \<longleftrightarrow> (\<exists>x. m = Inr x \<and> f x = Inr y)"
  by (cases m) (simp_all add: and_then_def)

lemma clean_eq:
  "clean parse df =
     (case parse_invoice_date parse df of
        Inl e \<Rightarrow> (df, Inl e)
      | Inr df' \<Rightarrow> (df', clean_copy df'))"
  by (simp add: clean_def clean_in_store_def then_run_def in_place_def new_object_def
      done_with_def clean_copy_def and_then_def not_returned_def
      split: sum.splits prod.splits)

lemma zip_map_self: "map (\<lambda>(r, v). r(c := v)) (zip xs (map g xs)) = map (\<lambda>r. r(c := g r)) xs"
  by (induction xs) auto

lemma select_map: "map fst (filter snd (zip xs (map p xs))) = filter p xs"
  by (induction xs) auto

lemma mapM_Inr:
  "mapM g xs = Inr vs \<Longrightarrow> vs = map (\<lambda>x. projr (g x)) xs \<and> (\<forall>x\<in>set xs. g x = Inr (projr (g x)))"
  by (induction xs arbitrary: vs) (auto split: sum.splits)

lemma mapM_Inl:
  "mapM g xs = Inl e \<Longrightarrow> \<exists>x\<in>set xs. g x = Inl e"
  by (induction xs) (auto split: sum.splits)

lemma mapM_all_Inr:
  "(\<forall>x\<in>set xs. \<exists>v. g x = Inr v) \<Longrightarrow> mapM g xs = Inr (map (\<lambda>x. projr (g x)) xs)"
  by (induction xs) (auto split: sum.splits)

lemma setitem_map:
  "setitem c (map g (rows df)) df =
     \<lparr>columns = (if c \<in> set (columns df) then columns df else columns df @ [c]),
      rows = map (\<lambda>r. r(c := g r)) (rows df)\<rparr>"
  by (simp add: setitem_def zip_map_self)

lemma select_map_rows: "select (map p (rows df)) df = df\<lparr>rows := filter p (rows df)\<rparr>"
  by (simp add: select_def select_map)

lemma parse_invoice_date_Inr:
  "parse_invoice_date parse df = Inr df' \<Longrightarrow>
     ''InvoiceDate'' \<in> set (columns df) \<and> columns df' = columns df \<and>
     rows df' = map (\<lambda>r. r(''InvoiceDate'' := to_datetime parse (r ''InvoiceDate''))) (rows df)"
  by (auto simp: parse_invoice_date_def setitem_map split: if_splits)

lemma dropna_Inr:
  "dropna c df = Inr df' \<Longrightarrow>
     c \<in> set (columns df) \<and> columns df' = columns df \<and> rows df' = filter (\<lambda>r. r c \<noteq> NaN) (rows df)"
  by (auto simp: dropna_def select_map_rows split: if_splits)

lemma astype_int_Inr:
  "astype_int c df = Inr df' \<Longrightarrow>
     c \<in> set (columns df) \<and> columns df' = columns df \<and>
     rows df' = map (\<lambda>r. r(c := projr (to_int (r c)))) (rows df) \<and>
     (\<forall>r\<in>set (rows df). to_int (r c) = Inr (projr (to_int (r c))))"
  by (auto simp: astype_int_def and_then_Inr setitem_map dest!: mapM_Inr split: if_splits)

lemma not_returned_eq:
  "not_returned df =
     (if ''ReturnStatus'' \<in> set (columns df)
      then df\<lparr>rows := filter (\<lambda>r. r ''ReturnStatus'' = Str ''Not Returned'') (rows df)\<rparr> else df)"
  by (simp add: not_returned_def select_map_rows)

lemma not_returned_columns: "columns (not_returned df) = columns df"
  by (simp add: not_returned_eq)

lemma not_returned_rows:
  "rows (not_returned df) =
     filter (\<lambda>r. ''ReturnStatus'' \<in> set (columns df) \<longrightarrow> r ''ReturnStatus'' = Str ''Not Returned'') (rows df)"
  by (simp add: not_returned_eq)

lemma mapM_select:
  "mapM g xs = Inr keep \<Longrightarrow> map fst (filter snd (zip xs keep)) = filter (\<lambda>x. g x = Inr True) xs"
  by (induction xs arbitrary: keep) (auto split: sum.splits)

lemma where_positive_Inr:
  "where_positive c df = Inr df' \<Longrightarrow>
     c \<in> set (columns df) \<and> columns df' = columns df \<and>
     rows df' = filter (\<lambda>r. gt_zero (r c) = Inr True) (rows df)"
  by (auto simp: where_positive_def and_then_Inr select_def dest!: mapM_select split: if_splits)

lemma clip_discount_Inr:
  "clip_discount df = Inr df' \<Longrightarrow>
     ''Discount'' \<in> set (columns df) \<and>
     set (columns df') = insert ''DiscountClipped'' (set (columns df)) \<and>
     rows df' = map (\<lambda>r. r(''DiscountClipped'' := projr (clip (r ''Discount'')))) (rows df) \<and>
     (\<forall>r\<in>set (rows df). clip (r ''Discount'') = Inr (projr (clip (r ''Discount''))))"
  by (auto simp: clip_discount_def and_then_Inr setitem_map dest!: mapM_Inr split: if_splits)

lemma total_price_Inr:
  "total_price df = Inr df' \<Longrightarrow>
     set (columns df') = insert ''TotalPrice'' (set (columns df)) \<and>
     rows df' = map (\<lambda>r. r(''TotalPrice'' := projr (total_price_of r))) (rows df) \<and>
     (\<forall>r\<in>set (rows df). total_price_of r = Inr (projr (total_price_of r)))"
  by (auto simp: total_price_def and_then_Inr setitem_map dest!: mapM_Inr split: if_splits)

lemma and_then_Inr_left: "and_then (Inr x) f = f x"
  by (simp add: and_then_def)

lemma and_then_Inl_left: "and_then (Inl e) f = Inl e"
  by (simp add: and_then_def)

lemma clean_copy_columns:
  assumes "clean_copy df = Inr out"
  shows "set (columns out) = set (columns df) \<union> {''DiscountClipped'', ''TotalPrice''}"
    and "{''CustomerID'', ''Quantity'', ''UnitPrice'', ''Discount''} \<subseteq> set (columns df)"
proof -
  from assms obtain d1 d2 d3 d4 d5 where
    s1: "dropna ''CustomerID'' df = Inr d1" and
    s2: "astype_int ''CustomerID'' d1 = Inr d2" and
    s3: "where_positive ''Quantity'' (not_returned d2) = Inr d3" and
    s4: "where_positive ''UnitPrice'' d3 = Inr d4" and
    s5: "clip_discount d4 = Inr d5" and
    s6: "total_price d5 = Inr out"
    unfolding clean_copy_def and_then_Inr by (elim exE conjE)
  note f1 = dropna_Inr [OF s1] and f2 = astype_int_Inr [OF s2]
    and f3 = where_positive_Inr [OF s3] and f4 = where_positive_Inr [OF s4]
    and f5 = clip_discount_Inr [OF s5] and f6 = total_price_Inr [OF s6]
  have c2: "columns d2 = columns df"
    using f1 f2 by simp
  have c3: "columns d3 = columns df"
    using f3 c2 by (simp add: not_returned_columns)
  have c4: "columns d4 = columns df"
    using f4 c3 by simp
  have q: "''Quantity'' \<in> set (columns df)"
    using f3 c2 by (simp add: not_returned_columns)
  show "set (columns out) = set (columns df) \<union> {''DiscountClipped'', ''TotalPrice''}"
    using f5 f6 c4 by auto
  show "{''CustomerID'', ''Quantity'', ''UnitPrice'', ''Discount''} \<subseteq> set (columns df)"
    using f1 f4 f5 q c3 c4 by simp
qed

lemma clean_Inr:
  "snd (clean parse df) = Inr out \<longleftrightarrow>
     (\<exists>df1. parse_invoice_date parse df = Inr df1 \<and> clean_copy df1 = Inr out)"
  by (auto simp: clean_eq split: sum.splits)

lemma clean_columns:
  assumes "snd (clean parse df) = Inr out"
  shows "set (columns out) = set (columns df) \<union> {''DiscountClipped'', ''TotalPrice''}"
    and "{''InvoiceDate'', ''CustomerID'', ''Quantity'', ''UnitPrice'', ''Discount''} \<subseteq> set (columns df)"
proof -
  from assms obtain df1 where p: "parse_invoice_date parse df = Inr df1"
    and c: "clean_copy df1 = Inr out"
    unfolding clean_Inr by (elim exE conjE)
  note f = parse_invoice_date_Inr [OF p]
  show "set (columns out) = set (columns df) \<union> {''DiscountClipped'', ''TotalPrice''}"
    using clean_copy_columns(1) [OF c] f by simp
  show "{''InvoiceDate'', ''CustomerID'', ''Quantity'', ''UnitPrice'', ''Discount''} \<subseteq> set (columns df)"
    using clean_copy_columns(2) [OF c] f by simp
qed

lemma preprocess_data_snd:
  "snd (preprocess_data parse df) = and_then (snd (clean parse df)) build_features"
  by (cases "clean parse df") (simp add: preprocess_data_def)

lemmas cleaner_defs = clean_eq parse_invoice_date_def clean_copy_def dropna_def astype_int_def
  not_returned_def where_positive_def clip_discount_def total_price_def total_price_of_def
  setitem_def select_def and_then_def to_datetime_def trunc_def row_of_def column_def
  example_parse_def required_columns_def in_int64_def wrap64_def

section \<open>A missing discount\<close>

text \<open>
  Claim C2, at a sale whose discount is missing. The claim counts the missing discount
  as 0, which makes the total price of the sale of 2 at 10 equal to 20. The program
  keeps the sale, and line 39 leaves its clipped discount missing and line 40 its
  total price; the sale of 1 at 5 without discount has the total price 5.
\<close>

theorem missing_discount_total_price:
  "and_then (snd (clean example_parse missing_discount_table))
     (\<lambda>out. Inr (column ''Quantity'' out, column ''UnitPrice'' out,
                 column ''DiscountClipped'' out, column ''TotalPrice'' out)) =
   Inr ([I64 2, I64 1], [I64 10, I64 5], [NaN, Num 0], [NaN, Num 5])"
  by (simp add: cleaner_defs missing_discount_table_def)

text \<open>
  Claim C7, at the same table. The claim puts the discount of every cleaned record
  between 0 and 1. The cleaned record of the first sale has a customer number, a
  positive quantity and a positive unit price, but its discount is missing, before
  and after line 39; the aggregation of line 51 then counts the sale in the frequency
  of the customer and leaves it out of the monetary value, which is 5 where the two
  sales are worth 25.
\<close>

theorem missing_discount_cleaned_record:
  "and_then (snd (clean example_parse missing_discount_table))
     (\<lambda>out. Inr (column ''CustomerID'' out, column ''Discount'' out,
                 column ''DiscountClipped'' out)) =
     Inr ([I64 1, I64 1], [NaN, Num 0], [NaN, Num 0]) \<and>
   and_then (snd (clean example_parse missing_discount_table)) aggregate =
     Inr [\<lparr>CustomerID = 1, Recency = Some 1, Frequency = 2, Monetary = 5\<rparr>]"
  by (simp add: cleaner_defs missing_discount_table_def aggregate_def group_keys_def
      snapshot_date_def series_max_def rfm_of_def recency_days_def series_sum_def day_def
      List.map_filter_simps)

section \<open>The table of the caller\<close>

text \<open>
  Claim C9, as the code has it. The cleaner runs on a store in which \<open>df\<close> is the table
  of the caller. When the table has no column \<open>InvoiceDate\<close> the cleaner raises and the
  store is as before. Otherwise, whether the cleaner returns or raises later: in the
  table of the caller the column \<open>InvoiceDate\<close> holds what \<open>pd.to_datetime\<close> reads from
  its cells (a missing value where it reads none), and the other columns, the
  column names and the number and order of the rows are as before; every other
  object that existed before the call is unchanged; and the cleaned table that the
  cleaner returns is an object that did not exist before the call.
\<close>

theorem clean_writes_invoice_date_only:
  assumes "df < next_free s"
  shows "case clean_in_store parse df s of
           (s', res) \<Rightarrow>
             (if ''InvoiceDate'' \<in> set (columns (objects s df))
              then objects s' df =
                     \<lparr>columns = columns (objects s df),
                      rows = map (\<lambda>r. r(''InvoiceDate'' := to_datetime parse (r ''InvoiceDate'')))
                               (rows (objects s df))\<rparr>
              else s' = s \<and> res = Inl (KeyError ''InvoiceDate'')) \<and>
             (\<forall>a. a < next_free s \<and> a \<noteq> df \<longrightarrow> objects s' a = objects s a) \<and>
             next_free s \<le> next_free s' \<and>
             (\<forall>a. res = Inr a \<longrightarrow> next_free s \<le> a \<and> a < next_free s')"
  using assms
  by (auto simp: clean_in_store_def then_run_def in_place_def new_object_def done_with_def
      parse_invoice_date_def setitem_map split: sum.splits prod.splits if_splits)

lemmas store_defs = clean_in_store_def then_run_def in_place_def new_object_def done_with_def
  two_tables_def bad_date_table_def no_discount_table_def

lemma bad_date_returns: "snd (clean_in_store example_parse 0 two_tables) = Inr 5"
  by (simp add: store_defs cleaner_defs)

text \<open>As the claim states it, every field of the caller's rows is unchanged after the
  cleaner has returned. The cleaner returns for the table whose only date reads
  \<open>soon\<close>, and the date of the caller's row is then missing.\<close>

theorem clean_mutates_input_counterexample:
  "snd (clean_in_store example_parse 0 two_tables) = Inr 5 \<and>
   column ''InvoiceDate'' (objects two_tables 0) = [Str ''soon''] \<and>
   column ''InvoiceDate'' (objects (fst (clean_in_store example_parse 0 two_tables)) 0) = [NaN]"
  by (simp add: store_defs cleaner_defs)

theorem clean_writes_invoice_date_only_witness:
  "0 < next_free two_tables \<and>
   ''InvoiceDate'' \<in> set (columns (objects two_tables 0)) \<and>
   objects (fst (clean_in_store example_parse 0 two_tables)) 0 =
     \<lparr>columns = columns bad_date_table,
      rows = map (\<lambda>r. r(''InvoiceDate'' := to_datetime example_parse (r ''InvoiceDate'')))
               (rows bad_date_table)\<rparr> \<and>
   objects (fst (clean_in_store example_parse 0 two_tables)) 1 = no_discount_table \<and>
   snd (clean_in_store example_parse 0 two_tables) = Inr 5 \<and>
   5 < next_free (fst (clean_in_store example_parse 0 two_tables))"
proof -
  have h: "0 < next_free two_tables"
    by (simp add: two_tables_def)
  have c: "''InvoiceDate'' \<in> set (columns (objects two_tables 0))"
    by (simp add: two_tables_def bad_date_table_def required_columns_def)
  have o: "objects two_tables 0 = bad_date_table" "objects two_tables 1 = no_discount_table"
    "next_free two_tables = 2"
    by (simp_all add: two_tables_def)
  from clean_writes_invoice_date_only [OF h, of example_parse] bad_date_returns h c o
  show ?thesis
    by (cases "clean_in_store example_parse 0 two_tables") simp
qed



section \<open>The feature builder\<close>




lemma two_purchases_cleaned:
  assumes "parse d1 = Some D1" "parse d2 = Some D2"
  shows "\<exists>out. snd (clean parse (two_purchases i1 d1 i2 d2)) = Inr out \<and>
     ''InvoiceDate'' \<in> set (columns out) \<and> ''CustomerID'' \<in> set (columns out) \<and>
     ''InvoiceNo'' \<in> set (columns out) \<and> ''TotalPrice'' \<in> set (columns out) \<and>
     column ''CustomerID'' out = [I64 1, I64 1] \<and>
     column ''InvoiceDate'' out = [Time D1, Time D2] \<and>
     column ''InvoiceNo'' out = [i1, i2] \<and>
     column ''TotalPrice'' out = [I64 20, I64 5]"
  using assms
  by (simp add: clean_eq parse_invoice_date_def clean_copy_def dropna_def astype_int_def
      not_returned_def where_positive_def clip_discount_def total_price_def total_price_of_def
      setitem_def select_def and_then_def to_datetime_def row_of_def column_def
      required_columns_def two_purchases_def wrap64_def)

lemma column_two:
  "column c df = [a, b] \<longleftrightarrow> (\<exists>ra rb. rows df = [ra, rb] \<and> ra c = a \<and> rb c = b)"
  by (auto simp: column_def map_eq_Cons_conv)

text \<open>
  Claim C8. Two sales of customer 1, the first of 2 at 10 dated \<open>D1\<close>, the second of 1
  at 5 dated \<open>D2\<close> later than \<open>D1\<close>, both without discount and with an invoice number,
  in a table without \<open>ReturnStatus\<close>. The cleaner keeps both; the snapshot date of
  line 46 is the later of the two dates plus one day; the aggregation gives one row,
  for customer 1, with frequency 2, monetary 25 and as recency the whole days from
  \<open>D2\<close> to the snapshot date, which is one day.
\<close>

theorem two_purchases_rfm:
  assumes "parse d1 = Some D1" "parse d2 = Some D2" "D1 < D2" "i1 \<noteq> NaN" "i2 \<noteq> NaN"
  shows "\<exists>out snapshot.
           snd (clean parse (two_purchases i1 d1 i2 d2)) = Inr out \<and>
           snapshot_date out = Some snapshot \<and> snapshot = max D1 D2 + day \<and>
           aggregate out =
             Inr [\<lparr>CustomerID = 1, Recency = Some (of_int ((snapshot - D2) div day)),
                    Frequency = 2, Monetary = 25\<rparr>] \<and>
           (snapshot - D2) div day = 1"
proof -
  from two_purchases_cleaned [OF assms(1,2), of i1 i2] obtain out where
    o: "snd (clean parse (two_purchases i1 d1 i2 d2)) = Inr out"
    and cols: "''InvoiceDate'' \<in> set (columns out)" "''CustomerID'' \<in> set (columns out)"
      "''InvoiceNo'' \<in> set (columns out)" "''TotalPrice'' \<in> set (columns out)"
    and c: "column ''CustomerID'' out = [I64 1, I64 1]"
    and d: "column ''InvoiceDate'' out = [Time D1, Time D2]"
    and i: "column ''InvoiceNo'' out = [i1, i2]"
    and t: "column ''TotalPrice'' out = [I64 20, I64 5]"
    by (elim exE conjE)
  from c obtain ra rb where r: "rows out = [ra, rb]"
    by (auto simp: column_two)
  from c d i t r have v:
    "ra ''CustomerID'' = I64 1" "rb ''CustomerID'' = I64 1"
    "ra ''InvoiceDate'' = Time D1" "rb ''InvoiceDate'' = Time D2"
    "ra ''InvoiceNo'' = i1" "rb ''InvoiceNo'' = i2"
    "ra ''TotalPrice'' = I64 20" "rb ''TotalPrice'' = I64 5"
    by (simp_all add: column_def)
  have k: "group_keys out = [1]"
    by (simp add: group_keys_def r v List.map_filter_simps)
  have s: "snapshot_date out = Some (max D1 D2 + day)"
    by (simp add: snapshot_date_def series_max_def r v List.map_filter_simps max.commute)
  have g: "rfm_of (snapshot_date out) 1 [ra, rb] =
      \<lparr>CustomerID = 1, Recency = Some (of_int ((max D1 D2 + day - D2) div day)),
       Frequency = 2, Monetary = 25\<rparr>"
    using assms(3,4,5)
    by (simp add: rfm_of_def recency_days_def s series_max_def series_sum_def wrap64_def v
        List.map_filter_simps)
  have a: "aggregate out =
      Inr [\<lparr>CustomerID = 1, Recency = Some (of_int ((max D1 D2 + day - D2) div day)),
             Frequency = 2, Monetary = 25\<rparr>]"
    using cols by (simp add: aggregate_def k r v g)
  have "(max D1 D2 + day - D2) div day = 1"
    using assms(3) by (simp add: day_def)
  with o s a show ?thesis
    by simp
qed

theorem two_purchases_rfm_witness:
  "example_parse (Str ''1970-01-01'') = Some 0 \<and>
   example_parse (Str ''1970-01-03'') = Some 172800000000000 \<and>
   (0::int) < 172800000000000 \<and> Str ''A1'' \<noteq> NaN \<and> Str ''A2'' \<noteq> NaN \<and>
   (\<exists>out. snd (clean example_parse
       (two_purchases (Str ''A1'') (Str ''1970-01-01'') (Str ''A2'') (Str ''1970-01-03''))) = Inr out \<and>
      snapshot_date out = Some 259200000000000 \<and>
      aggregate out = Inr [\<lparr>CustomerID = 1, Recency = Some 1, Frequency = 2, Monetary = 25\<rparr>])"
proof -
  have a: "example_parse (Str ''1970-01-01'') = Some 0"
    and b: "example_parse (Str ''1970-01-03'') = Some 172800000000000"
    by (simp_all add: example_parse_def)
  have c: "(0::int) < 172800000000000" and d: "Str ''A1'' \<noteq> NaN" and e: "Str ''A2'' \<noteq> NaN"
    by simp_all
  have f: "max (0::int) 172800000000000 + day = 259200000000000"
    by (simp add: day_def)
  from two_purchases_rfm [OF a b c d e] obtain out snapshot where
    "snd (clean example_parse
       (two_purchases (Str ''A1'') (Str ''1970-01-01'') (Str ''A2'') (Str ''1970-01-03''))) = Inr out"
    "snapshot_date out = Some snapshot" "snapshot = max 0 172800000000000 + day"
    "aggregate out =
       Inr [\<lparr>CustomerID = 1, Recency = Some (of_int ((snapshot - 172800000000000) div day)),
              Frequency = 2, Monetary = 25\<rparr>]"
    "(snapshot - 172800000000000) div day = 1"
    by (elim exE conjE)
  with a b f show ?thesis
    by simp
qed

lemma numeric_iff: "numeric c \<longleftrightarrow> c = NaN \<or> (\<exists>i. c = I64 i) \<or> (\<exists>x. c = Num x)"
  by (cases c) (simp_all add: numeric_def)

lemma to_int_Num_ok: "numeric c \<and> c \<noteq> NaN \<Longrightarrow> \<exists>v. to_int c = Inr v"
  by (cases c) (simp_all add: numeric_def)

lemma gt_zero_numeric_ok: "numeric c \<Longrightarrow> \<exists>v. gt_zero c = Inr v"
  by (cases c) (simp_all add: numeric_def exI [of _ False])

lemma astype_int_ok:
  assumes "c \<in> set (columns df)" and "\<forall>r\<in>set (rows df). numeric (r c) \<and> r c \<noteq> NaN"
  shows "\<exists>d. astype_int c df = Inr d"
proof -
  have "\<forall>r\<in>set (rows df). \<exists>v. to_int (r c) = Inr v"
    using assms(2) to_int_Num_ok by blast
  then have "mapM (\<lambda>r. to_int (r c)) (rows df) = Inr (map (\<lambda>r. projr (to_int (r c))) (rows df))"
    by (rule mapM_all_Inr)
  then show ?thesis
    using assms(1) by (simp add: astype_int_def and_then_def)
qed

lemma where_positive_ok:
  assumes "c \<in> set (columns df)" and "\<forall>r\<in>set (rows df). numeric (r c)"
  shows "\<exists>d. where_positive c df = Inr d"
proof -
  have "\<forall>r\<in>set (rows df). \<exists>v. gt_zero (r c) = Inr v"
    using assms(2) gt_zero_numeric_ok by blast
  then have "mapM (\<lambda>r. gt_zero (r c)) (rows df) = Inr (map (\<lambda>r. projr (gt_zero (r c))) (rows df))"
    by (rule mapM_all_Inr)
  then show ?thesis
    using assms(1) by (simp add: where_positive_def and_then_def)
qed

lemma where_positive_missing: "c \<notin> set (columns df) \<Longrightarrow> where_positive c df = Inl (KeyError c)"
  by (simp add: where_positive_def)

lemma clean_copy_key_error:
  assumes cols: "\<not> {''CustomerID'', ''Quantity'', ''UnitPrice'', ''Discount''} \<subseteq> set (columns df)"
    and num: "\<forall>r\<in>set (rows df).
               numeric (r ''CustomerID'') \<and> numeric (r ''Quantity'') \<and> numeric (r ''UnitPrice'')"
  shows "\<exists>k. clean_copy df = Inl (KeyError k) \<and>
             k \<in> {''CustomerID'', ''Quantity'', ''UnitPrice'', ''Discount''} \<and> k \<notin> set (columns df)"
proof (cases "''CustomerID'' \<in> set (columns df)")
  case False
  have "clean_copy df = Inl (KeyError ''CustomerID'')"
    using False by (simp add: clean_copy_def dropna_def and_then_def)
  then show ?thesis
    using False by (intro exI [of _ "''CustomerID''"]) simp
next
  case cid: True
  then obtain d1 where s1: "dropna ''CustomerID'' df = Inr d1"
    by (simp add: dropna_def)
  note f1 = dropna_Inr [OF s1]
  have "\<forall>r\<in>set (rows d1). numeric (r ''CustomerID'') \<and> r ''CustomerID'' \<noteq> NaN"
    using f1 num by simp
  with cid f1 obtain d2 where s2: "astype_int ''CustomerID'' d1 = Inr d2"
    using astype_int_ok [of "''CustomerID''" d1] by auto
  note f2 = astype_int_Inr [OF s2]
  have c2: "columns (not_returned d2) = columns df"
    using f1 f2 by (simp add: not_returned_columns)
  have n2: "\<forall>r\<in>set (rows (not_returned d2)). numeric (r ''Quantity'') \<and> numeric (r ''UnitPrice'')"
    using f1 f2 num by (auto simp: not_returned_rows)
  have step2: "clean_copy df =
      and_then (where_positive ''Quantity'' (not_returned d2)) (\<lambda>d3.
      and_then (where_positive ''UnitPrice'' d3) (\<lambda>d4.
      and_then (clip_discount d4) total_price))"
    by (simp add: clean_copy_def s1 s2 and_then_Inr_left)
  show ?thesis
  proof (cases "''Quantity'' \<in> set (columns df)")
    case False
    have "clean_copy df = Inl (KeyError ''Quantity'')"
      using False by (simp add: step2 where_positive_missing c2 and_then_Inl_left)
    then show ?thesis
      using False by (intro exI [of _ "''Quantity''"]) simp
  next
    case q: True
    with c2 n2 obtain d3 where s3: "where_positive ''Quantity'' (not_returned d2) = Inr d3"
      using where_positive_ok [of "''Quantity''" "not_returned d2"] by auto
    note f3 = where_positive_Inr [OF s3]
    have c3: "columns d3 = columns df"
      using f3 c2 by simp
    have n3: "\<forall>r\<in>set (rows d3). numeric (r ''UnitPrice'')"
      using f3 n2 by simp
    show ?thesis
    proof (cases "''UnitPrice'' \<in> set (columns df)")
      case False
      have "clean_copy df = Inl (KeyError ''UnitPrice'')"
        using False by (simp add: step2 s3 and_then_Inr_left where_positive_missing c3 and_then_Inl_left)
      then show ?thesis
        using False by (intro exI [of _ "''UnitPrice''"]) simp
    next
      case u: True
      with c3 n3 obtain d4 where s4: "where_positive ''UnitPrice'' d3 = Inr d4"
        using where_positive_ok [of "''UnitPrice''" d3] by auto
      have c4: "columns d4 = columns df"
        using where_positive_Inr [OF s4] c3 by simp
      from cols cid q u have d: "''Discount'' \<notin> set (columns df)"
        by simp
      have "clean_copy df = Inl (KeyError ''Discount'')"
        using d by (simp add: step2 s3 s4 and_then_Inr_left clip_discount_def c4 and_then_Inl_left)
      then show ?thesis
        using d by (intro exI [of _ "''Discount''"]) simp
    qed
  qed
qed

lemma required_cases:
  "c \<in> set required_columns \<longleftrightarrow>
     c = ''CustomerID'' \<or> c = ''InvoiceNo'' \<or> c = ''InvoiceDate'' \<or> c = ''Quantity'' \<or>
     c = ''UnitPrice'' \<or> c = ''Discount''"
  unfolding required_columns_def by (simp only: list.set insert_iff empty_iff simp_thms)

lemma cleaned_without_invoice_no:
  assumes o: "snd (clean parse df) = Inr out"
    and c: "c \<in> set required_columns" "c \<notin> set (columns df)"
  shows "c = ''InvoiceNo''" and "snd (preprocess_data parse df) = Inl (KeyError ''InvoiceNo'')"
proof -
  note cc = clean_columns [OF o]
  from cc(2) have five: "''InvoiceDate'' \<in> set (columns df)" "''CustomerID'' \<in> set (columns df)"
    "''Quantity'' \<in> set (columns df)" "''UnitPrice'' \<in> set (columns df)"
    "''Discount'' \<in> set (columns df)"
    by simp_all
  from c five show n: "c = ''InvoiceNo''"
    unfolding required_cases by auto
  have "''InvoiceNo'' \<notin> set (columns out)"
    using c(2) n cc(1) by simp
  moreover have "''InvoiceDate'' \<in> set (columns out)" "''CustomerID'' \<in> set (columns out)"
    using cc(1) five by simp_all
  ultimately have "aggregate out = Inl (KeyError ''InvoiceNo'')"
    by (simp add: aggregate_def)
  then show "snd (preprocess_data parse df) = Inl (KeyError ''InvoiceNo'')"
    by (simp add: preprocess_data_snd o and_then_def build_features_def)
qed

lemma clean_key_error:
  assumes c: "c \<in> set required_columns" "c \<notin> set (columns df)" "c \<noteq> ''InvoiceNo''"
    and num: "\<forall>r\<in>set (rows df). numeric (r ''CustomerID'') \<and> numeric (r ''Quantity'') \<and>
                                numeric (r ''UnitPrice'')"
  shows "\<exists>k. snd (clean parse df) = Inl (KeyError k) \<and> k \<in> set required_columns \<and>
             k \<noteq> ''InvoiceNo'' \<and> k \<notin> set (columns df)"
proof (cases "''InvoiceDate'' \<in> set (columns df)")
  case False
  have "snd (clean parse df) = Inl (KeyError ''InvoiceDate'')"
    using False by (simp add: clean_eq parse_invoice_date_def)
  then show ?thesis
    using False by (intro exI [of _ "''InvoiceDate''"]) (simp add: required_cases)
next
  case True
  then obtain df1 where p: "parse_invoice_date parse df = Inr df1"
    by (simp add: parse_invoice_date_def)
  note f = parse_invoice_date_Inr [OF p]
  from c True have "c = ''CustomerID'' \<or> c = ''Quantity'' \<or> c = ''UnitPrice'' \<or> c = ''Discount''"
    unfolding required_cases by auto
  with c(2) have "\<not> {''CustomerID'', ''Quantity'', ''UnitPrice'', ''Discount''} \<subseteq> set (columns df)"
    by auto
  then have cols: "\<not> {''CustomerID'', ''Quantity'', ''UnitPrice'', ''Discount''} \<subseteq> set (columns df1)"
    using f by simp
  have num1: "\<forall>r\<in>set (rows df1).
      numeric (r ''CustomerID'') \<and> numeric (r ''Quantity'') \<and> numeric (r ''UnitPrice'')"
    using f num by simp
  from clean_copy_key_error [OF cols num1] obtain k where
    k: "clean_copy df1 = Inl (KeyError k)"
       "k \<in> {''CustomerID'', ''Quantity'', ''UnitPrice'', ''Discount''}" "k \<notin> set (columns df1)"
    by (elim exE conjE)
  have "snd (clean parse df) = Inl (KeyError k)"
    using p k(1) by (simp add: clean_eq)
  moreover from k(2) have "k \<in> set required_columns \<and> k \<noteq> ''InvoiceNo''"
    unfolding required_cases by auto
  ultimately show ?thesis
    using k(3) f by auto
qed

section \<open>Missing columns\<close>

text \<open>
  Claim C4, as amended. Let the input table lack one of the six required columns. Then
  \<open>preprocess_data\<close> raises and returns no table. When the lacking column is not
  \<open>InvoiceNo\<close>, the cleaner itself raises, before it has a cleaned table; and when the
  customer numbers, quantities and unit prices are numbers or missing, what it raises
  is a \<open>KeyError\<close> that names a required column the table lacks. When the cleaner
  returns a cleaned table, the lacking column is \<open>InvoiceNo\<close>, and the aggregation
  raises the \<open>KeyError\<close> that names it.
\<close>

theorem missing_column_fails:
  assumes "c \<in> set required_columns" and "c \<notin> set (columns df)"
  shows "(\<exists>e. snd (preprocess_data parse df) = Inl e) \<and>
         (c \<noteq> ''InvoiceNo'' \<longrightarrow> (\<exists>e. snd (clean parse df) = Inl e)) \<and>
         (c \<noteq> ''InvoiceNo'' \<and>
          (\<forall>r\<in>set (rows df). numeric (r ''CustomerID'') \<and> numeric (r ''Quantity'') \<and>
                                numeric (r ''UnitPrice'')) \<longrightarrow>
            (\<exists>k. snd (clean parse df) = Inl (KeyError k) \<and> k \<in> set required_columns \<and>
                 k \<noteq> ''InvoiceNo'' \<and> k \<notin> set (columns df))) \<and>
         (\<forall>out. snd (clean parse df) = Inr out \<longrightarrow>
            c = ''InvoiceNo'' \<and> snd (preprocess_data parse df) = Inl (KeyError ''InvoiceNo''))"
proof (intro conjI impI allI)
  show "\<exists>e. snd (preprocess_data parse df) = Inl e"
  proof (cases "snd (clean parse df)")
    case (Inl e)
    then show ?thesis
      by (simp add: preprocess_data_snd and_then_def)
  next
    case (Inr out)
    from cleaned_without_invoice_no(2) [OF Inr assms] show ?thesis
      by (rule exI)
  qed
next
  assume n: "c \<noteq> ''InvoiceNo''"
  show "\<exists>e. snd (clean parse df) = Inl e"
  proof (cases "snd (clean parse df)")
    case (Inl e)
    then show ?thesis
      by (rule exI)
  next
    case (Inr out)
    from cleaned_without_invoice_no(1) [OF Inr assms] n show ?thesis
      by simp
  qed
next
  assume a: "c \<noteq> ''InvoiceNo'' \<and>
    (\<forall>r\<in>set (rows df). numeric (r ''CustomerID'') \<and> numeric (r ''Quantity'') \<and>
                          numeric (r ''UnitPrice''))"
  show "\<exists>k. snd (clean parse df) = Inl (KeyError k) \<and> k \<in> set required_columns \<and>
                 k \<noteq> ''InvoiceNo'' \<and> k \<notin> set (columns df)"
    by (rule clean_key_error [OF assms conjunct1 [OF a] conjunct2 [OF a]])
next
  fix out assume o: "snd (clean parse df) = Inr out"
  show "c = ''InvoiceNo''"
    by (rule cleaned_without_invoice_no(1) [OF o assms])
  show "snd (preprocess_data parse df) = Inl (KeyError ''InvoiceNo'')"
    by (rule cleaned_without_invoice_no(2) [OF o assms])
qed

lemma no_invoice_no_cleaned:
  "\<exists>out. snd (clean example_parse no_invoice_no_table) = Inr out \<and>
     column ''CustomerID'' out = [I64 1] \<and> column ''InvoiceDate'' out = [Time 0] \<and>
     column ''TotalPrice'' out = [Num 20]"
  by (simp add: cleaner_defs no_invoice_no_table_def)

text \<open>As the claim states it, the cleaner fails for a table that lacks \<open>InvoiceNo\<close>.
  It cleans such a table: lines 20 to 40 never read that column.\<close>

theorem missing_invoice_no_counterexample:
  "''InvoiceNo'' \<notin> set (columns no_invoice_no_table) \<and>
   (\<exists>out. snd (clean example_parse no_invoice_no_table) = Inr out \<and>
      column ''CustomerID'' out = [I64 1] \<and> column ''TotalPrice'' out = [Num 20])"
proof -
  have "''InvoiceNo'' \<notin> set (columns no_invoice_no_table)"
    by (simp add: no_invoice_no_table_def)
  with no_invoice_no_cleaned show ?thesis
    by auto
qed

theorem missing_column_fails_witness:
  "''Discount'' \<in> set required_columns \<and> ''Discount'' \<notin> set (columns no_discount_table) \<and>
   list_all (\<lambda>r. numeric (r ''CustomerID'') \<and> numeric (r ''Quantity'') \<and> numeric (r ''UnitPrice''))
     (rows no_discount_table) \<and>
   snd (clean example_parse no_discount_table) = Inl (KeyError ''Discount'') \<and>
   snd (preprocess_data example_parse no_discount_table) = Inl (KeyError ''Discount'')"
proof -
  have a: "''Discount'' \<in> set required_columns" "''Discount'' \<notin> set (columns no_discount_table)"
    by (simp_all add: required_columns_def no_discount_table_def)
  have n: "list_all (\<lambda>r. numeric (r ''CustomerID'') \<and> numeric (r ''Quantity'') \<and> numeric (r ''UnitPrice''))
     (rows no_discount_table)"
    by (simp add: no_discount_table_def row_of_def numeric_def)
  have c: "snd (clean example_parse no_discount_table) = Inl (KeyError ''Discount'')"
    by (simp add: cleaner_defs no_discount_table_def)
  have p: "snd (preprocess_data example_parse no_discount_table) = Inl (KeyError ''Discount'')"
    by (simp add: preprocess_data_snd c and_then_def)
  from missing_column_fails [OF a, of example_parse] a n c p show ?thesis
    by simp
qed

section \<open>The sweep\<close>

lemma run_trial_n_clusters: "run_trial lib a data X k = Inr t \<Longrightarrow> n_clusters t = k"
  by (auto simp: run_trial_def and_then_def split: sum.splits if_splits)

lemma completed_n_clusters:
  "map (run_trial lib a data X) ks = map Inr ts \<Longrightarrow> map n_clusters ts = ks"
proof (induction ks arbitrary: ts)
  case Nil
  then show ?case
    by simp
next
  case (Cons k ks)
  then obtain t ts' where "ts = t # ts'" "run_trial lib a data X k = Inr t"
    "map (run_trial lib a data X) ks = map Inr ts'"
    by (cases ts) auto
  with Cons.IH [of ts'] run_trial_n_clusters [of lib a data X k t] show ?case
    by simp
qed

lemma sweep_result:
  "sweep lib a data X ks acc = (ts, err) \<Longrightarrow>
     \<exists>n new. n \<le> length ks \<and> ts = acc @ new \<and> length new = n \<and>
         map (run_trial lib a data X) (take n ks) = map Inr new \<and>
         (err = None \<longleftrightarrow> n = length ks) \<and>
         (\<forall>e. err = Some e \<longrightarrow> n < length ks \<and> run_trial lib a data X (ks ! n) = Inl e)"
proof (induction ks arbitrary: acc)
  case Nil
  then show ?case
    by auto
next
  case (Cons k ks)
  show ?case
  proof (cases "run_trial lib a data X k")
    case (Inl e)
    with Cons.prems have "ts = acc" "err = Some e"
      by simp_all
    with Inl show ?thesis
      by (intro exI [of _ 0] exI [of _ "[]"]) simp
  next
    case (Inr t)
    with Cons.prems have "sweep lib a data X ks (acc @ [t]) = (ts, err)"
      by simp
    from Cons.IH [OF this] obtain n new where
      n: "n \<le> length ks" "ts = (acc @ [t]) @ new" "length new = n"
         "map (run_trial lib a data X) (take n ks) = map Inr new"
         "err = None \<longleftrightarrow> n = length ks"
         "\<forall>e. err = Some e \<longrightarrow> n < length ks \<and> run_trial lib a data X (ks ! n) = Inl e"
      by (elim exE conjE)
    from n Inr show ?thesis
      by (intro exI [of _ "Suc n"] exI [of _ "t # new"]) simp
  qed
qed

lemma k_range_list: "k_range = [2, 3, 4, 5, 6]"
  by (simp add: k_range_def upt_rec)

text \<open>
  Claim C1, as the code has it. The loop has no handler: the sweep runs the trials for
  k = 2, 3, 4, 5, 6 in this order and the first trial that raises ends it. Its outcomes
  are the trials completed before that one, each what the loop body gives for its k,
  one for each k of a prefix of 2 to 6 in ascending order; there are five of them
  exactly when no trial raised; and when one raised, the exception of the run is the
  exception of the trial for the first k without an outcome, and no later k was
  tried.
\<close>

theorem sweep_stops_at_first_failure:
  assumes "runSweep lib ambient data = (ts, err)"
  shows "length ts \<le> 5 \<and>
         map (run_trial lib ambient data (drop_column ''CustomerID'' data))
           (take (length ts) [2, 3, 4, 5, 6]) = map Inr ts \<and>
         map n_clusters ts = take (length ts) [2, 3, 4, 5, 6] \<and>
         (err = None \<longleftrightarrow> length ts = 5) \<and>
         (\<forall>e. err = Some e \<longrightarrow>
            run_trial lib ambient data (drop_column ''CustomerID'' data) (2 + length ts) = Inl e)"
proof -
  let ?X = "drop_column ''CustomerID'' data"
  from sweep_result [OF assms [unfolded runSweep_def]] obtain n where
    n: "n \<le> length k_range" "length ts = n"
       "map (run_trial lib ambient data ?X) (take n k_range) = map Inr ts"
       "err = None \<longleftrightarrow> n = length k_range"
       "\<forall>e. err = Some e \<longrightarrow> n < length k_range \<and>
              run_trial lib ambient data ?X (k_range ! n) = Inl e"
    by auto
  have nth: "k_range ! i = 2 + i" if "i < 5" for i
  proof -
    from that have "2 + i < 7"
      by simp
    then show ?thesis
      unfolding k_range_def by (rule nth_upt)
  qed
  have c: "map n_clusters ts = take n k_range"
    using n(3) by (rule completed_n_clusters)
  have l: "length k_range = 5"
    by (simp add: k_range_list)
  have e: "\<forall>e. err = Some e \<longrightarrow> run_trial lib ambient data ?X (2 + length ts) = Inl e"
    using n(2,5) nth l by auto
  have b: "n \<le> 5" "err = None \<longleftrightarrow> n = 5"
    using n(1,4) l by simp_all
  from b n(2) n(3) [unfolded k_range_list] c [unfolded k_range_list] e show ?thesis
    by simp
qed

lemmas sweep_defs = runSweep_def k_range_list drop_column_def run_trial_def KMeans_fit_def
  silhouette_score_def check_array_def and_then_def toy_libraries_def row_of_def scaled_row_def
  tracked_def scatterplot_def setitem_def

text \<open>As the claim states it, seven customers give five outcomes. For seven customers
  who bought alike the trial for k = 2 finds one cluster, the silhouette score refuses
  it, and the sweep ends without an outcome.\<close>

theorem sweep_aborts_counterexample:
  "7 \<le> length (rows seven_alike) \<and>
   runSweep toy_libraries 0 seven_alike =
     ([], Some (ValueError ''Number of labels is invalid. Valid values are 2 to n_samples - 1''))"
  by (simp add: sweep_defs seven_alike_def)

lemma seven_customers_sweep: "snd (runSweep toy_libraries 0 (seven_customers 1)) = None"
  by (simp add: sweep_defs seven_customers_def upt_rec)

theorem sweep_stops_at_first_failure_witness:
  "\<exists>ts. runSweep toy_libraries 0 (seven_customers 1) = (ts, None) \<and> length ts = 5 \<and>
     map n_clusters ts = [2, 3, 4, 5, 6]"
proof -
  obtain ts err where r: "runSweep toy_libraries 0 (seven_customers 1) = (ts, err)"
    by (cases "runSweep toy_libraries 0 (seven_customers 1)")
  with seven_customers_sweep have e: "err = None"
    by simp
  from sweep_stops_at_first_failure [OF r] e r show ?thesis
    by simp
qed

lemma mapM_cong: "(\<And>x. x \<in> set xs \<Longrightarrow> f x = g x) \<Longrightarrow> mapM f xs = mapM g xs"
  by (induction xs) (simp_all split: sum.splits)

lemma mapM_list_all2: "list_all2 (\<lambda>x y. f x = g y) xs ys \<Longrightarrow> mapM f xs = mapM g ys"
  by (induction xs ys rule: list_all2_induct) (simp_all split: sum.splits)

lemma check_array_drop_customer:
  assumes "columns d1 = columns d2"
    and "list_all2 (\<lambda>r1 r2. \<forall>c\<in>set (columns d1). c \<noteq> ''CustomerID'' \<longrightarrow> r1 c = r2 c)
           (rows d1) (rows d2)"
  shows "check_array (drop_column ''CustomerID'' d1) = check_array (drop_column ''CustomerID'' d2)"
proof -
  let ?cols = "filter (\<lambda>n. n \<noteq> ''CustomerID'') (columns d1)"
  have "list_all2 (\<lambda>r1 r2. mapM (\<lambda>c. float_of (r1 c)) ?cols = mapM (\<lambda>c. float_of (r2 c)) ?cols)
          (rows d1) (rows d2)"
    using assms(2) by (rule list_all2_mono) (auto intro!: mapM_cong)
  then have "mapM (\<lambda>r. mapM (\<lambda>c. float_of (r c)) ?cols) (rows d1) =
             mapM (\<lambda>r. mapM (\<lambda>c. float_of (r c)) ?cols) (rows d2)"
    by (rule mapM_list_all2)
  then show ?thesis
    unfolding check_array_def drop_column_def using assms(1) by (simp cong: if_cong)
qed

lemma setitem_columns:
  "columns (setitem c vs df) = (if c \<in> set (columns df) then columns df else columns df @ [c])"
  by (simp add: setitem_def)

lemma run_trial_metrics:
  assumes "check_array X1 = check_array X2" and "columns d1 = columns d2"
  shows "map_sum id metrics (run_trial lib a d1 X1 k) = map_sum id metrics (run_trial lib a d2 X2 k)"
  using assms
  by (auto simp: run_trial_def KMeans_fit_def silhouette_score_def and_then_def metrics_def
      tracked_def scatterplot_def setitem_columns split: sum.splits option.splits if_splits)

lemma sweep_metrics:
  assumes "check_array X1 = check_array X2" and "columns d1 = columns d2"
    and "map metrics acc1 = map metrics acc2"
  shows "map metrics (fst (sweep lib a d1 X1 ks acc1)) = map metrics (fst (sweep lib a d2 X2 ks acc2)) \<and>
         snd (sweep lib a d1 X1 ks acc1) = snd (sweep lib a d2 X2 ks acc2)"
  using assms(3)
proof (induction ks arbitrary: acc1 acc2)
  case Nil
  then show ?case
    by simp
next
  case (Cons k ks)
  from run_trial_metrics [OF assms(1,2), of lib a k] show ?case
  proof (cases "run_trial lib a d1 X1 k"; cases "run_trial lib a d2 X2 k")
    fix t1 t2
    assume t: "run_trial lib a d1 X1 k = Inr t1" "run_trial lib a d2 X2 k = Inr t2"
      and m: "map_sum id metrics (run_trial lib a d1 X1 k) = map_sum id metrics (run_trial lib a d2 X2 k)"
    then have "map metrics (acc1 @ [t1]) = map metrics (acc2 @ [t2])"
      using Cons.prems by simp
    from Cons.IH [OF this] t show ?thesis
      by simp
  qed (use Cons.prems in simp_all)
qed

text \<open>
  Claim C10. Two tables with the same columns and as many rows, whose rows agree one
  by one in every column but \<open>CustomerID\<close>: for every library and every state of the
  generator, the two sweeps complete the same trials, with the same number of
  clusters, the same labels, the same inertia and the same silhouette for every k,
  and end the same way (without an exception, or with the same one).
\<close>

theorem customer_id_not_used:
  assumes "columns d1 = columns d2"
    and "list_all2 (\<lambda>r1 r2. \<forall>c\<in>set (columns d1). c \<noteq> ''CustomerID'' \<longrightarrow> r1 c = r2 c)
           (rows d1) (rows d2)"
  shows "map metrics (fst (runSweep lib ambient d1)) = map metrics (fst (runSweep lib ambient d2)) \<and>
         snd (runSweep lib ambient d1) = snd (runSweep lib ambient d2)"
  unfolding runSweep_def
  by (rule sweep_metrics [OF check_array_drop_customer [OF assms] assms(1)]) simp

theorem customer_id_not_used_witness:
  "columns (seven_customers 1) = columns (seven_customers 101) \<and>
   length (rows (seven_customers 1)) = length (rows (seven_customers 101)) \<and>
   column ''CustomerID'' (seven_customers 1) \<noteq> column ''CustomerID'' (seven_customers 101) \<and>
   column ''Recency'' (seven_customers 1) = column ''Recency'' (seven_customers 101) \<and>
   map metrics (fst (runSweep toy_libraries 0 (seven_customers 1))) =
     map metrics (fst (runSweep toy_libraries 0 (seven_customers 101))) \<and>
   snd (runSweep toy_libraries 0 (seven_customers 1)) =
     snd (runSweep toy_libraries 0 (seven_customers 101))"
proof -
  have a: "columns (seven_customers 1) = columns (seven_customers 101)"
    by (simp add: seven_customers_def)
  have b: "list_all2 (\<lambda>r1 r2. \<forall>c\<in>set (columns (seven_customers 1)). c \<noteq> ''CustomerID'' \<longrightarrow> r1 c = r2 c)
             (rows (seven_customers 1)) (rows (seven_customers 101))"
    by (simp add: seven_customers_def scaled_row_def row_of_def)
  have c: "column ''CustomerID'' (seven_customers 1) \<noteq> column ''CustomerID'' (seven_customers 101)"
    by (simp add: seven_customers_def scaled_row_def row_of_def column_def)
  have d: "column ''Recency'' (seven_customers 1) = column ''Recency'' (seven_customers 101)"
    by (simp add: seven_customers_def scaled_row_def row_of_def column_def)
  have e: "length (rows (seven_customers 1)) = length (rows (seven_customers 101))"
    by (simp add: seven_customers_def)
  from customer_id_not_used [OF a b, of toy_libraries 0] a c d e show ?thesis
    by simp
qed

lemma KMeans_fit_seeded: "KMeans_fit lib g1 k (Seed n) X = KMeans_fit lib g2 k (Seed n) X"
  by (simp add: KMeans_fit_def cong: if_cong)

lemma run_trial_ambient: "run_trial lib g1 data X k = run_trial lib g2 data X k"
  unfolding run_trial_def by (simp only: KMeans_fit_seeded [of lib g1 k 42 X g2])

lemma sweep_ambient: "sweep lib g1 data X ks acc = sweep lib g2 data X ks acc"
  by (induction ks arbitrary: acc)
    (simp_all add: run_trial_ambient [of lib g1 _ _ _ g2] split: sum.splits)

text \<open>
  Claim C6. What a run computes from its input does not depend on the one thing that
  differs between two runs on the same input, the state of the generator of the
  process: every fit draws from a generator of its own, seeded with 42. So two runs
  of the two scripts on the same files, with generators in the states \<open>g1\<close> and \<open>g2\<close>,
  give the same scaled table and the same outcome of the sweep (hence the same labels
  for every k), and so do the second script and the sweep by themselves.
\<close>

theorem same_input_same_result:
  "pipeline parse lib g1 fs = pipeline parse lib g2 fs \<and>
   tuning_main lib g1 fs = tuning_main lib g2 fs \<and>
   runSweep lib g1 data = runSweep lib g2 data"
proof -
  have r: "runSweep lib g1 d = runSweep lib g2 d" for d
    by (simp add: runSweep_def sweep_ambient [of lib g1 _ _ _ _ g2])
  have t: "tuning_main lib g1 f = tuning_main lib g2 f" for f
    by (simp add: tuning_main_def r split: option.splits)
  show ?thesis
    by (simp add: pipeline_def r t)
qed

end
